theory Spec2Isabelle
  imports Main
begin

section \<open>The Python values the two modules work with\<close>

subsection \<open>Raised objects and outcomes\<close>

text \<open>
  Both modules guard their calls with \<^verbatim>\<open>except Exception\<close>. That clause catches the
  instances of \<^verbatim>\<open>Exception\<close> and lets the other instances of \<^verbatim>\<open>BaseException\<close>
  (\<^verbatim>\<open>SystemExit\<close>, \<^verbatim>\<open>KeyboardInterrupt\<close>, \<^verbatim>\<open>GeneratorExit\<close>) pass. The string is the
  class name of the raised object. A handler that writes the caught object into an
  f-string calls its \<^verbatim>\<open>__str__\<close>: \<open>Exception\<close> is an instance of \<^verbatim>\<open>Exception\<close> whose
  \<^verbatim>\<open>__str__\<close> returns a string, \<open>Unprintable\<close> is one whose \<^verbatim>\<open>__str__\<close> raises the
  given object (a \<^verbatim>\<open>TypeError\<close> when it returns something that is not a string).
\<close>

datatype py_exc = Exception string | Unprintable string py_exc | BaseOnly string

datatype 'a outcome = Returns 'a | Raises py_exc

subsection \<open>\<^verbatim>\<open>datetime.date\<close> and \<^verbatim>\<open>datetime.datetime\<close>\<close>

text \<open>
  A \<^verbatim>\<open>date\<close> is represented by its proleptic Gregorian ordinal, the value of
  \<^verbatim>\<open>date.toordinal()\<close>: 0001-01-01 is day 1 and \<^verbatim>\<open>date.max\<close> = 9999-12-31 is day
  3652059. Python orders dates as it orders their ordinals. The year, month and day
  are read off the ordinal the way the standard library's \<^verbatim>\<open>_ord2ymd\<close> does.
\<close>

datatype date = FromOrdinal (toordinal: nat)

definition MAXORDINAL :: nat where
  "MAXORDINAL = 3652059"

definition valid_date :: "date \<Rightarrow> bool" where
  "valid_date d = (0 < toordinal d \<and> toordinal d \<le> MAXORDINAL)"

definition DAYS_IN_MONTH :: "nat list" where
  "DAYS_IN_MONTH = [0, 31, 28, 31, 30, 31, 30, 31, 31, 30, 31, 30, 31]"

definition DAYS_BEFORE_MONTH :: "nat list" where
  "DAYS_BEFORE_MONTH = [0, 0, 31, 59, 90, 120, 151, 181, 212, 243, 273, 304, 334]"

definition ord2ymd :: "nat \<Rightarrow> nat \<times> nat \<times> nat" where
  "ord2ymd ordinal =
    (let n0 = ordinal - 1;
         n400 = n0 div 146097; na = n0 mod 146097;
         n100 = na div 36524; nb = na mod 36524;
         n4 = nb div 1461; nc = nb mod 1461;
         n1 = nc div 365; n = nc mod 365;
         year = n400 * 400 + 1 + n100 * 100 + n4 * 4 + n1
     in if n1 = 4 \<or> n100 = 4 then (year - 1, 12, 31)
        else
          let leapyear = (n1 = 3 \<and> (n4 \<noteq> 24 \<or> n100 = 3));
              month = (n + 50) div 32;
              preceding = DAYS_BEFORE_MONTH ! month + (if 2 < month \<and> leapyear then 1 else 0)
          in if n < preceding
             then (year, month - 1,
                   n - (preceding - (DAYS_IN_MONTH ! (month - 1)
                                     + (if month - 1 = 2 \<and> leapyear then 1 else 0))) + 1)
             else (year, month, n - preceding + 1))"

definition year_of :: "date \<Rightarrow> int" where
  "year_of d = int (fst (ord2ymd (toordinal d)))"

definition month_of :: "date \<Rightarrow> nat" where
  "month_of d = fst (snd (ord2ymd (toordinal d)))"

definition day_of :: "date \<Rightarrow> nat" where
  "day_of d = snd (snd (ord2ymd (toordinal d)))"

text \<open>\<^verbatim>\<open>date.weekday()\<close>: Monday is 0 and Sunday is 6.\<close>

definition weekday :: "date \<Rightarrow> nat" where
  "weekday d = (toordinal d + 6) mod 7"

text \<open>
  \<^verbatim>\<open>d + timedelta(days=k)\<close>: the library raises \<^verbatim>\<open>OverflowError\<close> when the resulting
  ordinal leaves \<open>1 .. MAXORDINAL\<close>.
\<close>

definition add_days :: "date \<Rightarrow> int \<Rightarrow> date outcome" where
  "add_days d k =
    (let ordinal = int (toordinal d) + k
     in if 0 < ordinal \<and> ordinal \<le> int MAXORDINAL
        then Returns (FromOrdinal (nat ordinal))
        else Raises (Exception ''OverflowError''))"

record datetime =
  dt_date :: date
  hour :: nat
  minute :: nat
  second :: nat

text \<open>\<^verbatim>\<open>datetime.combine(d, time(h, m, s))\<close>: the instant \<open>h:m:s\<close> of the day \<open>d\<close>.\<close>

definition datetime_at :: "date \<Rightarrow> nat \<Rightarrow> nat \<Rightarrow> nat \<Rightarrow> datetime" where
  "datetime_at d h m s = \<lparr>dt_date = d, hour = h, minute = m, second = s\<rparr>"

subsection \<open>Strings\<close>

fun str_nat :: "nat \<Rightarrow> string" where
  "str_nat n =
    (if n < 10 then [''0123456789'' ! n]
     else str_nat (n div 10) @ [''0123456789'' ! (n mod 10)])"

declare str_nat.simps [simp del]

text \<open>\<^verbatim>\<open>str(y)\<close> of an integer.\<close>

definition str_int :: "int \<Rightarrow> string" where
  "str_int y = (if y < 0 then CHR ''-'' # str_nat (nat (- y)) else str_nat (nat y))"

text \<open>The conversion \<^verbatim>\<open>%02d\<close>.\<close>

definition two_digits :: "nat \<Rightarrow> string" where
  "two_digits n = (if n < 10 then CHR ''0'' # str_nat n else str_nat n)"

text \<open>
  \<^verbatim>\<open>target_date.strftime('%Y-%m-%d')\<close>. The year is printed by the C library; glibc
  prints it without padding (year 5 gives \<^verbatim>\<open>5-01-01\<close>), and every platform agrees
  from the year 1000 on.
\<close>

definition strftime_ymd :: "date \<Rightarrow> string" where
  "strftime_ymd d =
    str_int (year_of d) @ ''-'' @ two_digits (month_of d) @ ''-'' @ two_digits (day_of d)"

text \<open>\<^verbatim>\<open>s.startswith(p)\<close>.\<close>

definition startswith :: "string \<Rightarrow> string \<Rightarrow> bool" where
  "startswith s p = (take (length p) s = p)"

section \<open>trading\_days.py\<close>

subsection \<open>The external calendar source\<close>

text \<open>
  One call of \<^verbatim>\<open>ak.tool_trade_date_hist_sina()\<close> together with the statements that
  read its result inside the inner \<^verbatim>\<open>try\<close>: an \<^verbatim>\<open>Exception\<close> is raised (network
  failure, missing column), or the call returns \<^verbatim>\<open>None\<close>, or it returns a data frame.
  A frame is given by its \<^verbatim>\<open>trade_date\<close> column after \<^verbatim>\<open>astype(str)\<close>; the empty list
  is the frame with \<^verbatim>\<open>df.empty\<close>. The source is a sequence of responses, one for each
  call in the order the calls are made. A response is what the call itself does; an
  interrupt delivered to the process while it runs is not one.
\<close>

datatype response = SourceError string | NoFrame | Frame "string list"

type_synonym source = "nat \<Rightarrow> response"

subsection \<open>TradingCalendar\<close>

text \<open>
  The three attributes set by \<^verbatim>\<open>__init__\<close>, and \<open>source_calls\<close>, which is not an
  attribute: it counts the calls of the external source made so far, and is the
  position of the next response in the source.
\<close>

record TradingCalendar =
  trading_days :: "string set"
  last_fetch_year :: "int option"
  fetch_year_range :: int
  source_calls :: nat

definition init_calendar :: TradingCalendar where
  "init_calendar =
    \<lparr>trading_days = {}, last_fetch_year = None, fetch_year_range = 2, source_calls = 0\<rparr>"

text \<open>
  \<^verbatim>\<open>set(df[df['trade_date'].str.startswith(str(y))]['trade_date'])\<close> for one response;
  nothing is added when the call raised, returned \<^verbatim>\<open>None\<close> or an empty frame.
\<close>

fun year_days :: "response \<Rightarrow> int \<Rightarrow> string set" where
  "year_days (SourceError e) y = {}"
| "year_days NoFrame y = {}"
| "year_days (Frame rows) y =
    (if rows \<noteq> [] then set (filter (\<lambda>s. startswith s (str_int y)) rows) else {})"

text \<open>
  The loop \<^verbatim>\<open>for y in range(...)\<close> of \<^verbatim>\<open>_fetch_trading_days\<close>: one source call for
  each year, the year's dates added to the local set, a failed year skipped.
\<close>

fun fetch_years :: "source \<Rightarrow> int list \<Rightarrow> nat \<Rightarrow> string set \<Rightarrow> string set \<times> nat" where
  "fetch_years src [] calls acc = (acc, calls)"
| "fetch_years src (y # ys) calls acc =
    fetch_years src ys (Suc calls) (acc \<union> year_days (src calls) y)"

text \<open>
  The years \<^verbatim>\<open>range(year - r, year + r + 1)\<close> of one fetch, \<open>r\<close> being
  \<^verbatim>\<open>self._fetch_year_range\<close>.
\<close>

definition fetch_window :: "TradingCalendar \<Rightarrow> date \<Rightarrow> int list" where
  "fetch_window self d =
    [year_of d - fetch_year_range self .. year_of d + fetch_year_range self]"

text \<open>
  \<^verbatim>\<open>_fetch_trading_days(target_date)\<close>. No statement outside the inner \<^verbatim>\<open>try\<close> raises,
  so the outer handler (which returns the empty set) is not entered.
\<close>

definition fetch_trading_days ::
    "source \<Rightarrow> TradingCalendar \<Rightarrow> date \<Rightarrow> string set \<times> TradingCalendar" where
  "fetch_trading_days src self target_date =
    (let year = year_of target_date
     in if last_fetch_year self = Some year then (trading_days self, self)
        else
          let (days, calls) =
                fetch_years src (fetch_window self target_date) (source_calls self) {}
          in (days, self\<lparr>trading_days := days, last_fetch_year := Some year,
                          source_calls := calls\<rparr>))"

text \<open>
  \<^verbatim>\<open>is_trading_day(target_date=None)\<close>; \<open>today\<close> is what \<^verbatim>\<open>date.today()\<close> returns.
  Nothing inside its \<^verbatim>\<open>try\<close> raises (\<^verbatim>\<open>_fetch_trading_days\<close> returns, \<^verbatim>\<open>strftime\<close>
  returns), so its handler, which answers \<^verbatim>\<open>weekday < 5\<close>, is not entered.
\<close>

definition is_trading_day ::
    "source \<Rightarrow> date \<Rightarrow> TradingCalendar \<Rightarrow> date option \<Rightarrow> bool \<times> TradingCalendar" where
  "is_trading_day src today self target =
    (let target_date = (case target of None \<Rightarrow> today | Some d \<Rightarrow> d);
         wd = weekday target_date
     in if 5 \<le> wd then (False, self)
        else
          let (days, self') = fetch_trading_days src self target_date
          in if days \<noteq> {} then (strftime_ymd target_date \<in> days, self')
             else (wd < 5, self'))"

text \<open>
  The loop of \<^verbatim>\<open>get_next_trading_day\<close>, \<open>n\<close> iterations left: the candidate is tested,
  and stepped by one day when it is not a trading day.
\<close>

fun scan_days ::
    "source \<Rightarrow> date \<Rightarrow> TradingCalendar \<Rightarrow> date \<Rightarrow> nat \<Rightarrow> date option outcome \<times> TradingCalendar"
  where
  "scan_days src today self check_date 0 = (Returns None, self)"
| "scan_days src today self check_date (Suc n) =
    (case is_trading_day src today self (Some check_date) of
       (True, self') \<Rightarrow> (Returns (Some check_date), self')
     | (False, self') \<Rightarrow>
         (case add_days check_date 1 of
            Raises e \<Rightarrow> (Raises e, self')
          | Returns next_date \<Rightarrow> scan_days src today self' next_date n))"

text \<open>
  \<^verbatim>\<open>get_next_trading_day(target_date=None, max_days=10)\<close>; \<^verbatim>\<open>range(max_days)\<close> has
  \<open>nat max_days\<close> elements (none when \<open>max_days\<close> is negative).
\<close>

definition get_next_trading_day ::
    "source \<Rightarrow> date \<Rightarrow> TradingCalendar \<Rightarrow> date option \<Rightarrow> int
      \<Rightarrow> date option outcome \<times> TradingCalendar" where
  "get_next_trading_day src today self target max_days =
    (let target_date = (case target of None \<Rightarrow> today | Some d \<Rightarrow> d)
     in case add_days target_date 1 of
          Raises e \<Rightarrow> (Raises e, self)
        | Returns check_date \<Rightarrow> scan_days src today self check_date (nat max_days))"

text \<open>
  \<^verbatim>\<open>is_market_open_time(current_time=None)\<close>; \<open>now\<close> is what \<^verbatim>\<open>datetime.now()\<close>
  returns.
\<close>

definition is_market_open_time ::
    "source \<Rightarrow> datetime \<Rightarrow> TradingCalendar \<Rightarrow> datetime option \<Rightarrow> bool \<times> TradingCalendar" where
  "is_market_open_time src now self current =
    (let current_time = (case current of None \<Rightarrow> now | Some t \<Rightarrow> t)
     in case is_trading_day src (dt_date now) self (Some (dt_date current_time)) of
          (False, self') \<Rightarrow> (False, self')
        | (True, self') \<Rightarrow>
            (let time_value = hour current_time * 100 + minute current_time
             in ((930 \<le> time_value \<and> time_value \<le> 1130)
                 \<or> (1300 \<le> time_value \<and> time_value \<le> 1500), self')))"

text \<open>
  The module keeps one calendar, \<^verbatim>\<open>_trading_calendar_instance\<close>, created by the first
  call of \<^verbatim>\<open>get_trading_calendar()\<close>.
\<close>

definition get_trading_calendar :: "TradingCalendar option \<Rightarrow> TradingCalendar" where
  "get_trading_calendar inst = (case inst of None \<Rightarrow> init_calendar | Some c \<Rightarrow> c)"

text \<open>The module-level \<^verbatim>\<open>is_trading_day(target_date=None)\<close>, on the module's calendar.\<close>

definition is_trading_day_global ::
    "source \<Rightarrow> date \<Rightarrow> TradingCalendar option \<Rightarrow> date option
      \<Rightarrow> bool \<times> TradingCalendar option" where
  "is_trading_day_global src today inst target =
    (let (b, c) = is_trading_day src today (get_trading_calendar inst) target
     in (b, Some c))"

subsection \<open>The scan of \<^verbatim>\<open>get_next_trading_day\<close>, candidate by candidate\<close>

text \<open>
  The calendar after \<^verbatim>\<open>is_trading_day\<close> has been asked about the days
  \<open>d + 1, \<dots>, d + j\<close> in turn, and the answer it then gives for the candidate \<open>d + k\<close>.
\<close>

fun calendar_after ::
    "source \<Rightarrow> date \<Rightarrow> TradingCalendar \<Rightarrow> date \<Rightarrow> nat \<Rightarrow> TradingCalendar" where
  "calendar_after src today self d 0 = self"
| "calendar_after src today self d (Suc j) =
    snd (is_trading_day src today (calendar_after src today self d j)
           (Some (FromOrdinal (toordinal d + Suc j))))"

definition candidate_trading ::
    "source \<Rightarrow> date \<Rightarrow> TradingCalendar \<Rightarrow> date \<Rightarrow> nat \<Rightarrow> bool" where
  "candidate_trading src today self d k =
    fst (is_trading_day src today (calendar_after src today self d (k - 1))
           (Some (FromOrdinal (toordinal d + k))))"

section \<open>market\_scheduler.py\<close>

subsection \<open>GracefulShutdown\<close>

text \<open>
  The flag \<^verbatim>\<open>shutdown_requested\<close>. The lock only makes the read and the write of the
  flag exclusive; the handler runs between two steps of the loop.
\<close>

record GracefulShutdown =
  shutdown_requested :: bool

definition signal_handler :: "GracefulShutdown \<Rightarrow> GracefulShutdown" where
  "signal_handler h = (if \<not> shutdown_requested h then h\<lparr>shutdown_requested := True\<rparr> else h)"

definition should_shutdown :: "GracefulShutdown \<Rightarrow> bool" where
  "should_shutdown h = shutdown_requested h"

subsection \<open>The task and the trigger library\<close>

text \<open>
  The task is an opaque callable without arguments. It is given by what each of its
  invocations does: the invocation made after \<open>n\<close> earlier ones returns, or raises.
\<close>

type_synonym task = "nat \<Rightarrow> unit outcome"

text \<open>
  A job of the \<^verbatim>\<open>schedule\<close> library: the time of day given to \<^verbatim>\<open>at\<close> and the clock
  value \<^verbatim>\<open>next_run\<close> from which the job is due. Each job created by
  \<^verbatim>\<open>set_daily_task\<close> runs the closure \<^verbatim>\<open>scheduled_job\<close>, which reads the scheduler
  object, so a job stores no function.
\<close>

record job =
  at_time :: string
  next_run :: nat

text \<open>
  The library itself is a parameter with two parts: \<open>accepts_time\<close>, the time strings
  that \<^verbatim>\<open>at\<close> takes for a daily job (for any other string it raises
  \<^verbatim>\<open>ScheduleValueError\<close>), and \<open>next_at\<close>, its computation of the next run from the
  clock and the time of day.
\<close>

record schedule_lib =
  accepts_time :: "string \<Rightarrow> bool"
  next_at :: "nat \<Rightarrow> string \<Rightarrow> nat"

subsection \<open>MarketScheduler\<close>

text \<open>
  The attributes of the object, and what it reaches: the job list of the \<^verbatim>\<open>schedule\<close>
  module, the calendar of the \<^verbatim>\<open>trading_days\<close> module, and two counters that are not
  attributes: \<open>invocations\<close>, the number of calls of the task callback made so far, and
  \<open>slept_seconds\<close>, the seconds asked of \<^verbatim>\<open>time.sleep\<close> so far. The constructor stores
  the time string as it is given; the library reads it in \<^verbatim>\<open>set_daily_task\<close>.
\<close>

record MarketScheduler =
  schedule_time :: string
  shutdown_handler :: GracefulShutdown
  task_callback :: "task option"
  running :: bool
  jobs :: "job list"
  calendar_instance :: "TradingCalendar option"
  invocations :: nat
  slept_seconds :: nat

definition init_scheduler :: "string \<Rightarrow> MarketScheduler" where
  "init_scheduler t =
    \<lparr>schedule_time = t, shutdown_handler = \<lparr>shutdown_requested = False\<rparr>,
     task_callback = None, running = False, jobs = [], calendar_instance = None,
     invocations = 0, slept_seconds = 0\<rparr>"

text \<open>\<^verbatim>\<open>_should_execute_task()\<close>: the module-level \<^verbatim>\<open>is_trading_day()\<close> for today.\<close>

definition should_execute_task ::
    "source \<Rightarrow> date \<Rightarrow> MarketScheduler \<Rightarrow> bool \<times> MarketScheduler" where
  "should_execute_task src today st =
    (let (b, inst) = is_trading_day_global src today (calendar_instance st) None
     in (b, st\<lparr>calendar_instance := inst\<rparr>))"

text \<open>
  \<^verbatim>\<open>_safe_run_task()\<close>: nothing without a callback; otherwise the callback is called, and
  \<^verbatim>\<open>except Exception\<close> takes what it raises when that is an \<^verbatim>\<open>Exception\<close>. The
  handler logs \<^verbatim>\<open>f"...{e}"\<close>: when the \<^verbatim>\<open>__str__\<close> of the caught object raises, that
  exception leaves the handler.
\<close>

definition safe_run_task :: "MarketScheduler \<Rightarrow> unit outcome \<times> MarketScheduler" where
  "safe_run_task st =
    (case task_callback st of
       None \<Rightarrow> (Returns (), st)
     | Some callback \<Rightarrow>
         (case callback (invocations st) of
            Returns u \<Rightarrow> (Returns (), st\<lparr>invocations := Suc (invocations st)\<rparr>)
          | Raises (Exception e) \<Rightarrow> (Returns (), st\<lparr>invocations := Suc (invocations st)\<rparr>)
          | Raises (Unprintable e e') \<Rightarrow>
              (Raises e', st\<lparr>invocations := Suc (invocations st)\<rparr>)
          | Raises (BaseOnly e) \<Rightarrow>
              (Raises (BaseOnly e), st\<lparr>invocations := Suc (invocations st)\<rparr>)))"

text \<open>The closure \<^verbatim>\<open>scheduled_job\<close> that \<^verbatim>\<open>set_daily_task\<close> hands to the library.\<close>

definition scheduled_job ::
    "source \<Rightarrow> date \<Rightarrow> MarketScheduler \<Rightarrow> unit outcome \<times> MarketScheduler" where
  "scheduled_job src today st =
    (let (b, st') = should_execute_task src today st
     in if b then safe_run_task st' else (Returns (), st'))"

text \<open>
  \<^verbatim>\<open>set_daily_task(task, run_immediately=True)\<close>; \<open>clock\<close> is the time the library reads
  when it computes the first run, \<open>today\<close> is what \<^verbatim>\<open>date.today()\<close> returns. The callback
  is stored first. Then \<^verbatim>\<open>every().day.at(self.schedule_time)\<close> raises for a string the
  library does not accept, before \<^verbatim>\<open>do\<close> has put the job on the list and before the
  immediate run.
\<close>

definition set_daily_task ::
    "schedule_lib \<Rightarrow> source \<Rightarrow> nat \<Rightarrow> date \<Rightarrow> MarketScheduler \<Rightarrow> task \<Rightarrow> bool
      \<Rightarrow> unit outcome \<times> MarketScheduler" where
  "set_daily_task lib src clock today st callback run_immediately =
    (let st1 = st\<lparr>task_callback := Some callback\<rparr>
     in if \<not> accepts_time lib (schedule_time st1)
        then (Raises (Exception ''ScheduleValueError''), st1)
        else
          let st2 = st1\<lparr>jobs := jobs st1 @
                      [\<lparr>at_time = schedule_time st1,
                        next_run = next_at lib clock (schedule_time st1)\<rparr>]\<rparr>
          in if run_immediately
             then (let (b, st3) = should_execute_task src today st2
                   in if b then safe_run_task st3 else (Returns (), st3))
             else (Returns (), st2))"

subsection \<open>The run loop\<close>

text \<open>
  What the environment does during one iteration of the loop of \<^verbatim>\<open>run()\<close>: the clock
  and the date that are read, whether SIGINT or SIGTERM is delivered, and whether
  \<^verbatim>\<open>stop()\<close> is called.
\<close>

record tick =
  tick_clock :: nat
  tick_today :: date
  signal_arrives :: bool
  stop_called :: bool

text \<open>
  The library's \<^verbatim>\<open>job.run()\<close> for the jobs given by their positions in the job list: the
  job function is called; when it returns, the job is scheduled again; when it
  raises, the exception leaves \<^verbatim>\<open>run_pending()\<close> and the later jobs are not run.
\<close>

fun run_jobs ::
    "schedule_lib \<Rightarrow> source \<Rightarrow> tick \<Rightarrow> MarketScheduler \<Rightarrow> nat list
      \<Rightarrow> unit outcome \<times> MarketScheduler" where
  "run_jobs lib src t st [] = (Returns (), st)"
| "run_jobs lib src t st (i # is) =
    (case scheduled_job src (tick_today t) st of
       (Raises e, st') \<Rightarrow> (Raises e, st')
     | (Returns u, st') \<Rightarrow>
         run_jobs lib src t
           (st'\<lparr>jobs := (jobs st')[i := (jobs st' ! i)
                     \<lparr>next_run := next_at lib (tick_clock t) (at_time (jobs st' ! i))\<rparr>]\<rparr>) is)"

text \<open>
  The library's \<^verbatim>\<open>run_pending()\<close>: the jobs whose \<^verbatim>\<open>next_run\<close> the clock has reached,
  in the order of their \<^verbatim>\<open>next_run\<close>.
\<close>

definition run_pending ::
    "schedule_lib \<Rightarrow> source \<Rightarrow> tick \<Rightarrow> MarketScheduler \<Rightarrow> unit outcome \<times> MarketScheduler" where
  "run_pending lib src t st =
    run_jobs lib src t st
      (sort_key (\<lambda>i. next_run (jobs st ! i))
         (filter (\<lambda>i. next_run (jobs st ! i) \<le> tick_clock t) [0 ..< length (jobs st)]))"

text \<open>\<^verbatim>\<open>stop()\<close>.\<close>

definition stop :: "MarketScheduler \<Rightarrow> MarketScheduler" where
  "stop st = st\<lparr>running := False\<rparr>"

text \<open>
  \<^verbatim>\<open>time.sleep(30)\<close> and the heartbeat, which only logs: thirty seconds of sleep are
  counted, and what else changes is what the environment does during the iteration, a
  signal running the handler and a call of \<^verbatim>\<open>stop()\<close>.
\<close>

definition sleep_phase :: "tick \<Rightarrow> MarketScheduler \<Rightarrow> MarketScheduler" where
  "sleep_phase t st =
    (let st0 = st\<lparr>slept_seconds := slept_seconds st + 30\<rparr>;
         st1 = (if signal_arrives t
                then st0\<lparr>shutdown_handler := signal_handler (shutdown_handler st0)\<rparr>
                else st0)
     in if stop_called t then stop st1 else st1)"

text \<open>The condition of the \<^verbatim>\<open>while\<close> loop.\<close>

definition loop_condition :: "MarketScheduler \<Rightarrow> bool" where
  "loop_condition st = (running st \<and> \<not> should_shutdown (shutdown_handler st))"

text \<open>
  How \<^verbatim>\<open>run()\<close> ends: the loop condition failed and \<^verbatim>\<open>run()\<close> returned; an exception
  left it; or the iterations given were used up with the loop still going.
\<close>

datatype run_result = Stopped | Propagated py_exc | StillRunning

fun run_loop ::
    "schedule_lib \<Rightarrow> source \<Rightarrow> MarketScheduler \<Rightarrow> tick list \<Rightarrow> run_result \<times> MarketScheduler"
  where
  "run_loop lib src st [] = (if loop_condition st then StillRunning else Stopped, st)"
| "run_loop lib src st (t # ts) =
    (if loop_condition st
     then (case run_pending lib src t st of
             (Raises e, st') \<Rightarrow> (Propagated e, st')
           | (Returns u, st') \<Rightarrow> run_loop lib src (sleep_phase t st') ts)
     else (Stopped, st))"

text \<open>\<^verbatim>\<open>run()\<close>: the flag \<^verbatim>\<open>_running\<close> is set, then the loop.\<close>

definition run ::
    "schedule_lib \<Rightarrow> source \<Rightarrow> MarketScheduler \<Rightarrow> tick list \<Rightarrow> run_result \<times> MarketScheduler"
  where
  "run lib src st ts = run_loop lib src (st\<lparr>running := True\<rparr>) ts"

section \<open>Sample sources, tasks and states\<close>

text \<open>A source that returns \<^verbatim>\<open>None\<close> at every call, and one that raises at every call.\<close>

definition silent_source :: source where
  "silent_source n = NoFrame"

definition failing_source :: source where
  "failing_source n = SourceError ''ConnectionError''"

text \<open>A source that returns the same three rows at every call.\<close>

definition sample_source :: source where
  "sample_source n = Frame [''2024-01-02'', ''2023-05-05'', ''2030-01-01'']"

text \<open>A calendar whose cache was fetched for the year 1999.\<close>

definition stale_calendar :: TradingCalendar where
  "stale_calendar =
    \<lparr>trading_days = {''1999-01-04''}, last_fetch_year = Some 1999, fetch_year_range = 2,
     source_calls = 5\<rparr>"

text \<open>
  A task that returns, a task that raises \<^verbatim>\<open>ValueError\<close>, a task that calls
  \<^verbatim>\<open>sys.exit()\<close>, and a task that raises an exception of a class of its own whose
  \<^verbatim>\<open>__str__\<close> raises \<^verbatim>\<open>RuntimeError\<close>.
\<close>

definition completing_task :: task where
  "completing_task n = Returns ()"

definition failing_task :: task where
  "failing_task n = Raises (Exception ''ValueError'')"

definition exiting_task :: task where
  "exiting_task n = Raises (BaseOnly ''SystemExit'')"

definition unprintable_task :: task where
  "unprintable_task n = Raises (Unprintable ''TaskError'' (Exception ''RuntimeError''))"

text \<open>
  The time strings \<^verbatim>\<open>HH:MM\<close> with the hour from 00 to 23 and the minute from 00 to 59.
\<close>

definition hhmm :: "string \<Rightarrow> bool" where
  "hhmm s =
    (case s of
       [h1, h2, c, m1, m2] \<Rightarrow>
         c = CHR '':'' \<and> h2 \<in> set ''0123456789'' \<and> m1 \<in> set ''012345''
         \<and> m2 \<in> set ''0123456789''
         \<and> (h1 \<in> set ''01'' \<or> (h1 = CHR ''2'' \<and> h2 \<in> set ''0123''))
     | _ \<Rightarrow> False)"

text \<open>
  A trigger library, in seconds: it accepts these time strings, and the next run is one
  day after the clock value.
\<close>

definition one_day_later :: schedule_lib where
  "one_day_later = \<lparr>accepts_time = hhmm, next_at = (\<lambda>clock t. clock + 86400)\<rparr>"

text \<open>
  The scheduler after \<^verbatim>\<open>MarketScheduler("15:05")\<close> and
  \<^verbatim>\<open>set_daily_task(callback, run_immediately=False)\<close> at clock 0.
\<close>

definition registered :: "task \<Rightarrow> MarketScheduler" where
  "registered callback =
    snd (set_daily_task one_day_later silent_source 0 (FromOrdinal 738887)
           (init_scheduler ''15:05'') callback False)"

text \<open>
  An iteration on Tuesday 2024-01-02 at clock 86400 during which nothing arrives, and
  the same iteration with a signal.
\<close>

definition tuesday_tick :: tick where
  "tuesday_tick =
    \<lparr>tick_clock = 86400, tick_today = FromOrdinal 738887, signal_arrives = False,
     stop_called = False\<rparr>"

definition signal_tick :: tick where
  "signal_tick = tuesday_tick\<lparr>signal_arrives := True\<rparr>"

section \<open>Properties of trading\_days.py\<close>

subsection \<open>The fetch\<close>

lemma fetch_years_calls: "snd (fetch_years src ys c acc) = c + length ys"
  by (induction ys arbitrary: c acc) simp_all

lemma fetch_years_days:
  "fst (fetch_years src ys c acc) = acc \<union> (\<Union>i<length ys. year_days (src (c + i)) (ys ! i))"
proof (induction ys arbitrary: c acc)
  case Nil
  then show ?case by simp
next
  case (Cons y ys)
  have "(\<Union>i<Suc (length ys). year_days (src (c + i)) ((y # ys) ! i))
        = year_days (src c) y \<union> (\<Union>i<length ys. year_days (src (Suc c + i)) (ys ! i))"
    by (simp add: lessThan_Suc_eq_insert_0 image_image)
  then show ?case using Cons.IH [of "Suc c" "acc \<union> year_days (src c) y"]
    by (simp add: Un_assoc)
qed

lemma nth_window: "i < nat (2 * r + 1) \<Longrightarrow> [y - r .. y + r] ! i = y - r + int i"
  by (simp add: nth_upto)

lemma fetch_trading_days_memo:
  "last_fetch_year self = Some (year_of d) \<Longrightarrow>
     fetch_trading_days src self d = (trading_days self, self)"
  by (simp add: fetch_trading_days_def)

lemma fetch_trading_days_refetch:
  assumes "last_fetch_year self \<noteq> Some (year_of d)" and "0 \<le> fetch_year_range self"
  shows "fetch_trading_days src self d =
     ((\<Union>i<nat (2 * fetch_year_range self + 1).
         year_days (src (source_calls self + i)) (year_of d - fetch_year_range self + int i)),
      self\<lparr>trading_days := (\<Union>i<nat (2 * fetch_year_range self + 1).
         year_days (src (source_calls self + i)) (year_of d - fetch_year_range self + int i)),
        last_fetch_year := Some (year_of d),
        source_calls := source_calls self + nat (2 * fetch_year_range self + 1)\<rparr>)"
proof -
  let ?r = "fetch_year_range self" and ?y = "year_of d"
  let ?ys = "[?y - ?r .. ?y + ?r]"
  have len: "length ?ys = nat (2 * ?r + 1)" using assms(2) by simp
  have "fst (fetch_years src ?ys (source_calls self) {})
        = (\<Union>i<nat (2 * ?r + 1). year_days (src (source_calls self + i)) (?ys ! i))"
    by (simp only: fetch_years_days len Un_empty_left)
  also have "\<dots> = (\<Union>i<nat (2 * ?r + 1). year_days (src (source_calls self + i)) (?y - ?r + int i))"
    using nth_window [of _ ?r ?y] by simp
  finally have d: "fst (fetch_years src ?ys (source_calls self) {}) =
     (\<Union>i<nat (2 * ?r + 1). year_days (src (source_calls self + i)) (?y - ?r + int i))" .
  have c: "snd (fetch_years src ?ys (source_calls self) {}) = source_calls self + nat (2 * ?r + 1)"
    by (simp only: fetch_years_calls len)
  show ?thesis
    using assms(1) d c
    by (simp add: fetch_trading_days_def fetch_window_def Let_def split_beta del: upto.simps)
qed

lemma fetch_trading_days_last_year:
  "last_fetch_year (snd (fetch_trading_days src self d)) = Some (year_of d)"
  by (simp add: fetch_trading_days_def Let_def split_beta del: upto.simps)

lemma fetch_trading_days_returns_cache:
  "fst (fetch_trading_days src self d) = trading_days (snd (fetch_trading_days src self d))"
  by (simp add: fetch_trading_days_def Let_def split_beta del: upto.simps)

lemma fetch_trading_days_window:
  "last_fetch_year self \<noteq> Some (year_of d) \<Longrightarrow>
    fst (fetch_trading_days src self d) =
      (\<Union>i<length (fetch_window self d).
          year_days (src (source_calls self + i)) (fetch_window self d ! i))"
  by (simp add: fetch_trading_days_def Let_def split_beta fetch_years_days fetch_window_def
        del: upto.simps)

subsection \<open>Sample dates and sources\<close>

text \<open>
  Ordinal 738887 is Tuesday 2024-01-02, 738890 is Friday 2024-01-05, 738891 is Saturday
  2024-01-06 and 738893 is Monday 2024-01-08.
\<close>

lemma tuesday: "weekday (FromOrdinal 738887) = 1"
  by (simp add: weekday_def)

lemma saturday: "weekday (FromOrdinal 738891) = 5"
  by (simp add: weekday_def)

lemma year_2024: "year_of (FromOrdinal 738887) = 2024"
  by (simp add: year_of_def ord2ymd_def Let_def)

lemma year_of_monday: "year_of (FromOrdinal 738893) = 2024"
  by (simp add: year_of_def ord2ymd_def Let_def)

lemma silent_tuesday:
  "is_trading_day silent_source today init_calendar (Some (FromOrdinal 738887))
   = (True, init_calendar\<lparr>last_fetch_year := Some 2024, source_calls := 5\<rparr>)"
  by (simp add: is_trading_day_def tuesday fetch_trading_days_def fetch_window_def year_2024
      init_calendar_def silent_source_def Let_def)

lemma sat_ex: "is_trading_day src today self (Some (FromOrdinal 738891)) = (False, self)"
  by (simp add: is_trading_day_def saturday)

lemma str_years:
  "str_int 2022 = ''2022''" "str_int 2023 = ''2023''" "str_int 2024 = ''2024''"
  "str_int 2025 = ''2025''" "str_int 2026 = ''2026''"
  by (simp_all add: str_int_def str_nat.simps)

lemma sample_fetch:
  "fst (fetch_trading_days sample_source stale_calendar (FromOrdinal 738887))
    = {''2024-01-02'', ''2023-05-05''}"
  by (simp add: fetch_trading_days_def fetch_window_def stale_calendar_def year_2024 Let_def
      sample_source_def str_years startswith_def insert_commute)

subsection \<open>Market hours\<close>

lemma is_trading_day_today_irrelevant:
  "is_trading_day src t1 self (Some d) = is_trading_day src t2 self (Some d)"
  by (simp add: is_trading_day_def)

lemma is_market_open_time_eq:
  "is_market_open_time src now self (Some t) =
    (fst (is_trading_day src today self (Some (dt_date t)))
       \<and> ((930 \<le> hour t * 100 + minute t \<and> hour t * 100 + minute t \<le> 1130)
          \<or> (1300 \<le> hour t * 100 + minute t \<and> hour t * 100 + minute t \<le> 1500)),
     snd (is_trading_day src today self (Some (dt_date t))))"
  unfolding is_market_open_time_def Let_def
  using is_trading_day_today_irrelevant [of src "dt_date now" self "dt_date t" today]
  by (cases "is_trading_day src today self (Some (dt_date t))") (auto split: bool.splits)

text \<open>
  Claim C1, as amended. On a date that \<^verbatim>\<open>is_trading_day\<close> accepts,
  \<^verbatim>\<open>is_market_open_time\<close> is true at 09:30:00 and at 15:00:00 and false at 09:29:59 and
  at 12:59:59. It is also true at 11:30:01: the seconds are not read, the whole minute
  11:30 belongs to the morning session, and 11:31:00 is the first instant after it that
  is closed. On a date that \<^verbatim>\<open>is_trading_day\<close> rejects it is false at every clock time.
\<close>

theorem market_open_on_trading_day:
  "(fst (is_trading_day src today self (Some d)) \<longrightarrow>
      fst (is_market_open_time src now self (Some (datetime_at d 9 30 0)))
    \<and> fst (is_market_open_time src now self (Some (datetime_at d 15 0 0)))
    \<and> \<not> fst (is_market_open_time src now self (Some (datetime_at d 9 29 59)))
    \<and> fst (is_market_open_time src now self (Some (datetime_at d 11 30 1)))
    \<and> \<not> fst (is_market_open_time src now self (Some (datetime_at d 11 31 0)))
    \<and> \<not> fst (is_market_open_time src now self (Some (datetime_at d 12 59 59))))
   \<and> (\<not> fst (is_trading_day src today self (Some d)) \<longrightarrow>
      \<not> fst (is_market_open_time src now self (Some (datetime_at d h m s))))"
  by (simp add: is_market_open_time_eq [where today = today] datetime_at_def)

theorem market_open_on_trading_day_witness:
  "fst (is_trading_day silent_source (FromOrdinal 738887) init_calendar (Some (FromOrdinal 738887)))
   \<and> fst (is_market_open_time silent_source (datetime_at (FromOrdinal 738887) 9 30 0)
            init_calendar (Some (datetime_at (FromOrdinal 738887) 9 30 0)))
   \<and> fst (is_market_open_time silent_source (datetime_at (FromOrdinal 738887) 9 30 0)
            init_calendar (Some (datetime_at (FromOrdinal 738887) 11 30 1)))
   \<and> \<not> fst (is_market_open_time silent_source (datetime_at (FromOrdinal 738887) 9 30 0)
            init_calendar (Some (datetime_at (FromOrdinal 738887) 12 59 59)))
   \<and> \<not> fst (is_trading_day silent_source (FromOrdinal 738887) init_calendar
              (Some (FromOrdinal 738891)))
   \<and> \<not> fst (is_market_open_time silent_source (datetime_at (FromOrdinal 738887) 9 30 0)
            init_calendar (Some (datetime_at (FromOrdinal 738891) 10 0 0)))"
  using market_open_on_trading_day [where src = silent_source and today = "FromOrdinal 738887"
      and self = init_calendar and d = "FromOrdinal 738887"
      and now = "datetime_at (FromOrdinal 738887) 9 30 0"]
    market_open_on_trading_day [where src = silent_source and today = "FromOrdinal 738887"
      and self = init_calendar and d = "FromOrdinal 738891"
      and now = "datetime_at (FromOrdinal 738887) 9 30 0" and h = 10 and m = 0 and s = 0]
  by (simp add: silent_tuesday sat_ex)

text \<open>
  Claim C1 as it was stated asks for false at 11:30:01 on a trading day. Tuesday
  2024-01-02 (ordinal 738887) is a trading day under the weekday fallback, and the
  function returns true for 11:30:01 of that day.
\<close>

theorem market_open_counterexample:
  "fst (is_trading_day silent_source (FromOrdinal 738887) init_calendar (Some (FromOrdinal 738887)))
   \<and> fst (is_market_open_time silent_source (datetime_at (FromOrdinal 738887) 11 30 1)
        init_calendar (Some (datetime_at (FromOrdinal 738887) 11 30 1)))"
  by (simp add: is_market_open_time_def silent_tuesday datetime_at_def)

subsection \<open>Trading days\<close>

text \<open>
  Claim C2. A fetch is attempted for the year of a weekday date (Monday to Friday), and
  each call of the fetch window raises, returns nothing, or returns no date of its
  year. Then \<^verbatim>\<open>is_trading_day\<close> returns true, the weekday fallback. It returns a value:
  the failure of a call is a response that the loop skips, and nothing reaches the
  caller as an exception.
\<close>

theorem weekday_fallback_when_source_fails:
  assumes "weekday d < 5"
    and "last_fetch_year self \<noteq> Some (year_of d)"
    and "\<forall>i<length (fetch_window self d).
           year_days (src (source_calls self + i)) (fetch_window self d ! i) = {}"
  shows "fst (is_trading_day src today self (Some d))"
proof -
  have "fst (fetch_trading_days src self d) = {}"
    using assms(2,3) by (simp add: fetch_trading_days_window)
  then show ?thesis
    using assms(1) by (simp add: is_trading_day_def Let_def split_beta)
qed

theorem weekday_fallback_when_source_fails_witness:
  "weekday (FromOrdinal 738887) < 5
   \<and> last_fetch_year init_calendar \<noteq> Some (year_of (FromOrdinal 738887))
   \<and> fst (is_trading_day failing_source (FromOrdinal 738887)
            init_calendar (Some (FromOrdinal 738887)))"
proof -
  have a: "weekday (FromOrdinal 738887) < 5" by (simp add: tuesday)
  have b: "last_fetch_year init_calendar \<noteq> Some (year_of (FromOrdinal 738887))"
    by (simp add: init_calendar_def)
  have c: "\<forall>i<length (fetch_window init_calendar (FromOrdinal 738887)).
      year_days (failing_source (source_calls init_calendar + i))
        (fetch_window init_calendar (FromOrdinal 738887) ! i) = {}"
    by (simp add: failing_source_def)
  show ?thesis
    using weekday_fallback_when_source_fails [OF a b c] a b by simp
qed

text \<open>
  Claim C3. For a Saturday or a Sunday \<^verbatim>\<open>is_trading_day\<close> returns false and the
  calendar is returned as it was: the cache, the reference year and the number of
  calls of the external source are unchanged. This holds for a date that is passed and
  for the date of today when none is passed.
\<close>

theorem weekend_is_not_trading_day:
  assumes "weekday d = 5 \<or> weekday d = 6"
  shows "is_trading_day src today self (Some d) = (False, self)
       \<and> is_trading_day src d self None = (False, self)"
  using assms by (auto simp add: is_trading_day_def)

theorem weekend_is_not_trading_day_witness:
  "(weekday (FromOrdinal 738891) = 5 \<or> weekday (FromOrdinal 738891) = 6)
   \<and> is_trading_day sample_source (FromOrdinal 738887) init_calendar
        (Some (FromOrdinal 738891)) = (False, init_calendar)"
proof -
  have a: "weekday (FromOrdinal 738891) = 5 \<or> weekday (FromOrdinal 738891) = 6"
    by (simp add: saturday)
  show ?thesis
    using weekend_is_not_trading_day [OF a] a by simp
qed

subsection \<open>The cache\<close>

text \<open>
  Claim C4. A second call of \<^verbatim>\<open>_fetch_trading_days\<close> for a date of the same year as the
  call before returns the set that call returned and leaves the calendar, and with it
  the count of source calls, unchanged. A call for a year other than the stored one
  calls the source once for each year of the window, and the set it returns and caches
  is the union of the dates those responses give for their years: nothing of the old
  cache is kept.
\<close>

theorem refresh_cache_memo_and_replace:
  "(year_of d2 = year_of d1 \<longrightarrow>
      fetch_trading_days src (snd (fetch_trading_days src self d1)) d2
        = (fst (fetch_trading_days src self d1), snd (fetch_trading_days src self d1)))
   \<and> (last_fetch_year self \<noteq> Some (year_of d) \<and> 0 \<le> fetch_year_range self \<longrightarrow>
        fst (fetch_trading_days src self d)
          = (\<Union>i<nat (2 * fetch_year_range self + 1).
               year_days (src (source_calls self + i)) (year_of d - fetch_year_range self + int i))
      \<and> trading_days (snd (fetch_trading_days src self d)) = fst (fetch_trading_days src self d)
      \<and> last_fetch_year (snd (fetch_trading_days src self d)) = Some (year_of d)
      \<and> source_calls (snd (fetch_trading_days src self d))
          = source_calls self + nat (2 * fetch_year_range self + 1))"
proof (intro conjI impI)
  assume "year_of d2 = year_of d1"
  then show "fetch_trading_days src (snd (fetch_trading_days src self d1)) d2
        = (fst (fetch_trading_days src self d1), snd (fetch_trading_days src self d1))"
    using fetch_trading_days_last_year [of src self d1]
    by (simp add: fetch_trading_days_memo fetch_trading_days_returns_cache)
next
  assume a: "last_fetch_year self \<noteq> Some (year_of d) \<and> 0 \<le> fetch_year_range self"
  note r = fetch_trading_days_refetch [of self d src]
  show "fst (fetch_trading_days src self d)
          = (\<Union>i<nat (2 * fetch_year_range self + 1).
               year_days (src (source_calls self + i)) (year_of d - fetch_year_range self + int i))"
    using a r by simp
  show "source_calls (snd (fetch_trading_days src self d))
          = source_calls self + nat (2 * fetch_year_range self + 1)"
    using a r by simp
qed (simp_all add: fetch_trading_days_last_year fetch_trading_days_returns_cache)

theorem refresh_cache_memo_and_replace_witness:
  "(last_fetch_year stale_calendar \<noteq> Some (year_of (FromOrdinal 738887))
      \<and> 0 \<le> fetch_year_range stale_calendar)
   \<and> trading_days stale_calendar = {''1999-01-04''}
   \<and> trading_days (snd (fetch_trading_days sample_source stale_calendar (FromOrdinal 738887)))
       = {''2024-01-02'', ''2023-05-05''}
   \<and> source_calls (snd (fetch_trading_days sample_source stale_calendar (FromOrdinal 738887)))
       = source_calls stale_calendar + 5
   \<and> last_fetch_year (snd (fetch_trading_days sample_source stale_calendar (FromOrdinal 738887)))
       = Some 2024
   \<and> fetch_trading_days sample_source
        (snd (fetch_trading_days sample_source stale_calendar (FromOrdinal 738887)))
        (FromOrdinal 738893)
      = (fst (fetch_trading_days sample_source stale_calendar (FromOrdinal 738887)),
         snd (fetch_trading_days sample_source stale_calendar (FromOrdinal 738887)))"
proof -
  let ?d = "FromOrdinal 738887"
  note t = refresh_cache_memo_and_replace [where src = sample_source
      and self = stale_calendar and d = ?d and ?d1.0 = ?d and ?d2.0 = "FromOrdinal 738893"]
  have h: "last_fetch_year stale_calendar \<noteq> Some (year_of ?d)
      \<and> 0 \<le> fetch_year_range stale_calendar"
    by (simp add: stale_calendar_def year_2024)
  have y: "year_of (FromOrdinal 738893) = year_of ?d"
    by (simp add: year_2024 year_of_monday)
  have memo: "fetch_trading_days sample_source
        (snd (fetch_trading_days sample_source stale_calendar ?d)) (FromOrdinal 738893)
      = (fst (fetch_trading_days sample_source stale_calendar ?d),
         snd (fetch_trading_days sample_source stale_calendar ?d))"
    by (rule t [THEN conjunct1, THEN mp, OF y])
  note r = t [THEN conjunct2, THEN mp, OF h]
  have old: "trading_days stale_calendar = {''1999-01-04''}"
    by (simp add: stale_calendar_def)
  have new: "trading_days (snd (fetch_trading_days sample_source stale_calendar ?d))
      = {''2024-01-02'', ''2023-05-05''}"
    using r by (simp only: sample_fetch)
  have calls: "source_calls (snd (fetch_trading_days sample_source stale_calendar ?d))
      = source_calls stale_calendar + 5"
    using r by (simp add: stale_calendar_def)
  have year: "last_fetch_year (snd (fetch_trading_days sample_source stale_calendar ?d))
      = Some 2024"
    using r by (simp add: year_2024)
  show ?thesis
    using h old new calls year memo by blast
qed

text \<open>
  Claim C5. When the stored reference year differs from the year asked for, the stored
  year is the year asked for after the call, whatever set was fetched (the empty set
  included), and the same call made again returns that set with no further call of the
  source.
\<close>

theorem reference_year_recorded_after_fetch:
  assumes "last_fetch_year self \<noteq> Some (year_of d)"
  shows "last_fetch_year (snd (fetch_trading_days src self d)) = Some (year_of d)
       \<and> fetch_trading_days src (snd (fetch_trading_days src self d)) d
           = (fst (fetch_trading_days src self d), snd (fetch_trading_days src self d))
       \<and> source_calls (snd (fetch_trading_days src (snd (fetch_trading_days src self d)) d))
           = source_calls (snd (fetch_trading_days src self d))"
  using fetch_trading_days_last_year [of src self d]
  by (simp add: fetch_trading_days_memo fetch_trading_days_returns_cache)

theorem reference_year_recorded_after_fetch_witness:
  "last_fetch_year init_calendar \<noteq> Some (year_of (FromOrdinal 738887))
   \<and> fst (fetch_trading_days failing_source init_calendar (FromOrdinal 738887)) = {}
   \<and> last_fetch_year (snd (fetch_trading_days failing_source init_calendar
        (FromOrdinal 738887))) = Some 2024
   \<and> fetch_trading_days failing_source
        (snd (fetch_trading_days failing_source init_calendar (FromOrdinal 738887)))
        (FromOrdinal 738887)
      = (fst (fetch_trading_days failing_source init_calendar (FromOrdinal 738887)),
         snd (fetch_trading_days failing_source init_calendar (FromOrdinal 738887)))"
proof -
  have a: "last_fetch_year init_calendar \<noteq> Some (year_of (FromOrdinal 738887))"
    by (simp add: init_calendar_def)
  have e: "fst (fetch_trading_days failing_source init_calendar (FromOrdinal 738887)) = {}"
    using a by (simp add: fetch_trading_days_window failing_source_def)
  show ?thesis
    using reference_year_recorded_after_fetch [OF a, of failing_source] a e
    by (simp add: year_2024)
qed

subsection \<open>The next trading day\<close>

lemma trading_day_is_weekday:
  "fst (is_trading_day src today self (Some d)) \<Longrightarrow> weekday d < 5"
  by (auto simp add: is_trading_day_def Let_def split: if_splits)

lemma add_days_one:
  "n < MAXORDINAL \<Longrightarrow> add_days (FromOrdinal n) 1 = Returns (FromOrdinal (Suc n))"
  by (simp add: add_days_def Let_def nat_add_distrib)

lemma add_days_one_cases:
  "add_days (FromOrdinal n) 1 = Returns r \<Longrightarrow> r = FromOrdinal (Suc n)"
  by (auto simp add: add_days_def Let_def nat_add_distrib split: if_splits)

lemma probe_step:
  "is_trading_day src today (calendar_after src today self d j)
       (Some (FromOrdinal (Suc (toordinal d + j))))
   = (candidate_trading src today self d (Suc j), calendar_after src today self d (Suc j))"
  by (simp add: candidate_trading_def)

declare calendar_after.simps(2) [simp del]

lemma scan_days_found:
  assumes "j < k" "k \<le> j + n" "candidate_trading src today self d k"
    and "\<forall>i. j < i \<and> i < k \<longrightarrow> \<not> candidate_trading src today self d i"
    and "toordinal d + k \<le> MAXORDINAL"
  shows "fst (scan_days src today (calendar_after src today self d j)
                (FromOrdinal (Suc (toordinal d + j))) n)
         = Returns (Some (FromOrdinal (toordinal d + k)))"
  using assms
proof (induction n arbitrary: j)
  case 0
  then show ?case by simp
next
  case (Suc n)
  show ?case
  proof (cases "candidate_trading src today self d (Suc j)")
    case True
    with Suc.prems have "k = Suc j"
      by (metis Suc_lessI lessI)
    with True show ?thesis by (simp add: probe_step)
  next
    case False
    with Suc.prems have k: "Suc j < k"
      by (metis Suc_lessI)
    then have "Suc (toordinal d + j) < MAXORDINAL" using Suc.prems(5) by simp
    then have a: "add_days (FromOrdinal (Suc (toordinal d + j))) 1
                  = Returns (FromOrdinal (Suc (toordinal d + Suc j)))"
      by (simp add: add_days_one)
    have "fst (scan_days src today (calendar_after src today self d (Suc j))
                (FromOrdinal (Suc (toordinal d + Suc j))) n)
         = Returns (Some (FromOrdinal (toordinal d + k)))"
      using Suc.IH [of "Suc j"] k Suc.prems by simp
    then show ?thesis using False a by (simp add: probe_step)
  qed
qed

lemma scan_days_none:
  assumes "\<forall>i. j < i \<and> i \<le> j + n \<longrightarrow> \<not> candidate_trading src today self d i"
    and "toordinal d + j + n < MAXORDINAL"
  shows "fst (scan_days src today (calendar_after src today self d j)
                (FromOrdinal (Suc (toordinal d + j))) n) = Returns None"
  using assms
proof (induction n arbitrary: j)
  case 0
  then show ?case by simp
next
  case (Suc n)
  have f: "\<not> candidate_trading src today self d (Suc j)" using Suc.prems(1) by simp
  have "Suc (toordinal d + j) < MAXORDINAL" using Suc.prems(2) by simp
  then have a: "add_days (FromOrdinal (Suc (toordinal d + j))) 1
                = Returns (FromOrdinal (Suc (toordinal d + Suc j)))"
    by (simp add: add_days_one)
  have "fst (scan_days src today (calendar_after src today self d (Suc j))
                (FromOrdinal (Suc (toordinal d + Suc j))) n) = Returns None"
    using Suc.IH [of "Suc j"] Suc.prems by simp
  then show ?case using f a by (simp add: probe_step)
qed

lemma scan_days_result:
  assumes "fst (scan_days src today (calendar_after src today self d j)
                (FromOrdinal (Suc (toordinal d + j))) n) = Returns (Some r)"
  shows "\<exists>k. j < k \<and> k \<le> j + n \<and> r = FromOrdinal (toordinal d + k)
             \<and> candidate_trading src today self d k"
  using assms
proof (induction n arbitrary: j)
  case 0
  then show ?case by simp
next
  case (Suc n)
  show ?case
  proof (cases "candidate_trading src today self d (Suc j)")
    case True
    with Suc.prems have "r = FromOrdinal (toordinal d + Suc j)" by (simp add: probe_step)
    with True show ?thesis by (intro exI [of _ "Suc j"]) simp
  next
    case False
    show ?thesis
    proof (cases "add_days (FromOrdinal (Suc (toordinal d + j))) 1")
      case (Raises e)
      with False Suc.prems show ?thesis by (simp add: probe_step)
    next
      case (Returns nd)
      then have nd: "nd = FromOrdinal (Suc (toordinal d + Suc j))"
        using add_days_one_cases by fastforce
      with False Returns Suc.prems
      have "fst (scan_days src today (calendar_after src today self d (Suc j))
                (FromOrdinal (Suc (toordinal d + Suc j))) n) = Returns (Some r)"
        by (simp add: probe_step)
      from Suc.IH [OF this] obtain k where "Suc j < k" "k \<le> Suc j + n"
        "r = FromOrdinal (toordinal d + k)" "candidate_trading src today self d k" by blast
      then show ?thesis by (intro exI [of _ k]) simp
    qed
  qed
qed

lemma get_next_trading_day_in_range:
  assumes "toordinal d + nat max_days < MAXORDINAL"
  shows "get_next_trading_day src today self (Some d) max_days
      = scan_days src today (calendar_after src today self d 0)
          (FromOrdinal (Suc (toordinal d + 0))) (nat max_days)"
proof -
  have "toordinal d < MAXORDINAL" using assms by simp
  then have "add_days d 1 = Returns (FromOrdinal (Suc (toordinal d)))"
    using add_days_one [of "toordinal d"] by simp
  then show ?thesis by (simp add: get_next_trading_day_def)
qed

lemma get_next_trading_day_result:
  assumes "fst (get_next_trading_day src today self (Some d) max_days) = Returns (Some r)"
  shows "\<exists>k. 0 < k \<and> k \<le> nat max_days \<and> r = FromOrdinal (toordinal d + k)
             \<and> candidate_trading src today self d k"
proof (cases "add_days d 1")
  case (Raises e)
  with assms show ?thesis by (simp add: get_next_trading_day_def)
next
  case (Returns first)
  then have "add_days (FromOrdinal (toordinal d)) 1 = Returns first" by simp
  then have "first = FromOrdinal (Suc (toordinal d))" by (rule add_days_one_cases)
  with Returns assms
  have "fst (scan_days src today (calendar_after src today self d 0)
              (FromOrdinal (Suc (toordinal d + 0))) (nat max_days)) = Returns (Some r)"
    by (simp add: get_next_trading_day_def)
  from scan_days_result [OF this] show ?thesis by simp
qed

text \<open>
  Claim C6, as amended. When the days \<open>d + 1, \<dots>, d + max_days + 1\<close> do not pass
  \<^verbatim>\<open>date.max\<close>, \<^verbatim>\<open>get_next_trading_day\<close> returns the first of the candidates
  \<open>d + 1, \<dots>, d + max_days\<close> that \<^verbatim>\<open>is_trading_day\<close> accepts when the scan reaches it,
  and returns \<^verbatim>\<open>None\<close> when it accepts none of them. Whenever a date is returned, it
  is later than \<open>d\<close>, at most \<open>max_days\<close> days later, and not a Saturday or a Sunday.
\<close>

theorem next_trading_day_first_candidate:
  "(toordinal d + nat max_days < MAXORDINAL \<longrightarrow>
      (\<forall>k. 1 \<le> k \<and> k \<le> nat max_days \<and> candidate_trading src today self d k
             \<and> (\<forall>i. 1 \<le> i \<and> i < k \<longrightarrow> \<not> candidate_trading src today self d i)
           \<longrightarrow> fst (get_next_trading_day src today self (Some d) max_days)
                 = Returns (Some (FromOrdinal (toordinal d + k))))
      \<and> ((\<forall>k. 1 \<le> k \<and> k \<le> nat max_days \<longrightarrow> \<not> candidate_trading src today self d k)
           \<longrightarrow> fst (get_next_trading_day src today self (Some d) max_days) = Returns None))
   \<and> (\<forall>r. fst (get_next_trading_day src today self (Some d) max_days) = Returns (Some r)
         \<longrightarrow> toordinal d < toordinal r \<and> toordinal r \<le> toordinal d + nat max_days
             \<and> weekday r < 5)"
proof (rule conjI, intro conjI impI allI)
  fix k
  assume range: "toordinal d + nat max_days < MAXORDINAL"
    and k: "1 \<le> k \<and> k \<le> nat max_days \<and> candidate_trading src today self d k
             \<and> (\<forall>i. 1 \<le> i \<and> i < k \<longrightarrow> \<not> candidate_trading src today self d i)"
  have "fst (scan_days src today (calendar_after src today self d 0)
              (FromOrdinal (Suc (toordinal d + 0))) (nat max_days))
       = Returns (Some (FromOrdinal (toordinal d + k)))"
  proof (rule scan_days_found)
    show "0 < k" using k by simp
    show "k \<le> 0 + nat max_days" using k by simp
    show "candidate_trading src today self d k" using k by simp
    show "\<forall>i. 0 < i \<and> i < k \<longrightarrow> \<not> candidate_trading src today self d i"
      using k by (simp add: Suc_le_eq)
    show "toordinal d + k \<le> MAXORDINAL" using range k by simp
  qed
  then show "fst (get_next_trading_day src today self (Some d) max_days)
                 = Returns (Some (FromOrdinal (toordinal d + k)))"
    using range by (simp only: get_next_trading_day_in_range)
next
  assume range: "toordinal d + nat max_days < MAXORDINAL"
    and no: "\<forall>k. 1 \<le> k \<and> k \<le> nat max_days \<longrightarrow> \<not> candidate_trading src today self d k"
  have "fst (scan_days src today (calendar_after src today self d 0)
              (FromOrdinal (Suc (toordinal d + 0))) (nat max_days)) = Returns None"
  proof (rule scan_days_none)
    show "\<forall>i. 0 < i \<and> i \<le> 0 + nat max_days \<longrightarrow> \<not> candidate_trading src today self d i"
      using no by (simp add: Suc_le_eq)
    show "toordinal d + 0 + nat max_days < MAXORDINAL" using range by simp
  qed
  then show "fst (get_next_trading_day src today self (Some d) max_days) = Returns None"
    using range by (simp only: get_next_trading_day_in_range)
next
  show "\<forall>r. fst (get_next_trading_day src today self (Some d) max_days) = Returns (Some r)
         \<longrightarrow> toordinal d < toordinal r \<and> toordinal r \<le> toordinal d + nat max_days
             \<and> weekday r < 5"
  proof (intro allI impI)
    fix r
    assume "fst (get_next_trading_day src today self (Some d) max_days) = Returns (Some r)"
    from get_next_trading_day_result [OF this] obtain k where k: "0 < k" "k \<le> nat max_days"
      "r = FromOrdinal (toordinal d + k)" "candidate_trading src today self d k" by blast
    from k(4) have "weekday (FromOrdinal (toordinal d + k)) < 5"
      unfolding candidate_trading_def by (rule trading_day_is_weekday)
    with k show "toordinal d < toordinal r \<and> toordinal r \<le> toordinal d + nat max_days
        \<and> weekday r < 5"
      by simp
  qed
qed

lemma cand1:
  "\<not> candidate_trading silent_source (FromOrdinal 738890) init_calendar
       (FromOrdinal 738890) 1"
  by (simp add: candidate_trading_def is_trading_day_def weekday_def)

lemma cal1:
  "calendar_after silent_source (FromOrdinal 738890) init_calendar (FromOrdinal 738890)
     (Suc 0) = init_calendar"
  by (simp add: calendar_after.simps is_trading_day_def weekday_def)

lemma cand2:
  "\<not> candidate_trading silent_source (FromOrdinal 738890) init_calendar
       (FromOrdinal 738890) 2"
  by (simp add: candidate_trading_def is_trading_day_def weekday_def cal1)

lemma cal2:
  "calendar_after silent_source (FromOrdinal 738890) init_calendar (FromOrdinal 738890)
     (Suc (Suc 0)) = init_calendar"
  by (simp add: calendar_after.simps(2) [of _ _ _ _ "Suc 0"] cal1 is_trading_day_def weekday_def)

lemma cand3:
  "candidate_trading silent_source (FromOrdinal 738890) init_calendar (FromOrdinal 738890) 3"
proof -
  have "(3::nat) - 1 = Suc (Suc 0)" by simp
  then show ?thesis
    unfolding candidate_trading_def
    by (simp only: cal2)
       (simp add: is_trading_day_def weekday_def fetch_trading_days_def fetch_window_def
          year_of_monday init_calendar_def silent_source_def Let_def)
qed

theorem next_trading_day_first_candidate_witness:
  "toordinal (FromOrdinal 738890) + nat 10 < MAXORDINAL
   \<and> fst (get_next_trading_day silent_source (FromOrdinal 738890) init_calendar
            (Some (FromOrdinal 738890)) 10) = Returns (Some (FromOrdinal 738893))
   \<and> weekday (FromOrdinal 738893) < 5"
proof -
  have h: "toordinal (FromOrdinal 738890) + nat 10 < MAXORDINAL"
    by (simp add: MAXORDINAL_def)
  have lower: "\<forall>i. 1 \<le> i \<and> i < (3::nat)
       \<longrightarrow> \<not> candidate_trading silent_source (FromOrdinal 738890) init_calendar (FromOrdinal 738890) i"
  proof (intro allI impI)
    fix i :: nat assume "1 \<le> i \<and> i < 3"
    then have "i = 1 \<or> i = 2" by auto
    then show "\<not> candidate_trading silent_source (FromOrdinal 738890) init_calendar (FromOrdinal 738890) i"
      using cand1 cand2 by auto
  qed
  note t = next_trading_day_first_candidate [where d = "FromOrdinal 738890" and max_days = 10
      and src = silent_source and today = "FromOrdinal 738890" and self = init_calendar,
      THEN conjunct1, THEN mp, OF h]
  have "fst (get_next_trading_day silent_source (FromOrdinal 738890) init_calendar
            (Some (FromOrdinal 738890)) 10) = Returns (Some (FromOrdinal (toordinal (FromOrdinal 738890) + 3)))"
    by (rule t [THEN conjunct1, THEN spec [where x = "3::nat"], THEN mp]) (simp add: cand3 lower)
  moreover have "weekday (FromOrdinal 738893) < 5" by (simp add: weekday_def)
  ultimately show ?thesis using h by simp
qed

text \<open>
  Claim C6 as it was stated covers every input date. For \<^verbatim>\<open>date.max\<close>, 9999-12-31
  (ordinal 3652059), there is no candidate, and the function does not return
  \<^verbatim>\<open>None\<close>: the step to the next day raises \<^verbatim>\<open>OverflowError\<close>.
\<close>

theorem next_trading_day_counterexample:
  "valid_date (FromOrdinal 3652059)
   \<and> fst (get_next_trading_day silent_source (FromOrdinal 3652059) init_calendar
            (Some (FromOrdinal 3652059)) 10) = Raises (Exception ''OverflowError'')"
  by (simp add: valid_date_def MAXORDINAL_def get_next_trading_day_def add_days_def)

section \<open>Properties of market\_scheduler.py\<close>

subsection \<open>What each step leaves unchanged\<close>

lemma should_execute_task_fields:
  "task_callback (snd (should_execute_task src today st)) = task_callback st"
  "invocations (snd (should_execute_task src today st)) = invocations st"
  "jobs (snd (should_execute_task src today st)) = jobs st"
  "running (snd (should_execute_task src today st)) = running st"
  "shutdown_handler (snd (should_execute_task src today st)) = shutdown_handler st"
  "slept_seconds (snd (should_execute_task src today st)) = slept_seconds st"
  by (simp_all add: should_execute_task_def split_beta)

lemma safe_run_task_fields:
  "task_callback (snd (safe_run_task st)) = task_callback st"
  "jobs (snd (safe_run_task st)) = jobs st"
  "running (snd (safe_run_task st)) = running st"
  "shutdown_handler (snd (safe_run_task st)) = shutdown_handler st"
  "slept_seconds (snd (safe_run_task st)) = slept_seconds st"
  by (simp_all add: safe_run_task_def split: option.splits outcome.splits py_exc.splits)

lemma safe_run_task_no_callback:
  "task_callback st = None \<Longrightarrow> safe_run_task st = (Returns (), st)"
  by (simp add: safe_run_task_def)

lemma safe_run_task_contained:
  "task_callback st = Some c \<Longrightarrow> \<forall>n. c n = Returns () \<or> (\<exists>e. c n = Raises (Exception e)) \<Longrightarrow> fst (safe_run_task st) = Returns ()"
proof -
  assume cb: "task_callback st = Some c"
    and ok: "\<forall>n. c n = Returns () \<or> (\<exists>e. c n = Raises (Exception e))"
  from ok have "c (invocations st) = Returns () \<or> (\<exists>e. c (invocations st) = Raises (Exception e))"
    by (rule spec)
  then show ?thesis using cb by (auto simp add: safe_run_task_def)
qed

lemma scheduled_job_fields:
  "task_callback (snd (scheduled_job src today st)) = task_callback st"
  "jobs (snd (scheduled_job src today st)) = jobs st"
  "running (snd (scheduled_job src today st)) = running st"
  "shutdown_handler (snd (scheduled_job src today st)) = shutdown_handler st"
  "slept_seconds (snd (scheduled_job src today st)) = slept_seconds st"
  by (simp_all add: scheduled_job_def split_beta safe_run_task_fields should_execute_task_fields)

lemma scheduled_job_contained:
  "task_callback st = Some c \<Longrightarrow> \<forall>n. c n = Returns () \<or> (\<exists>e. c n = Raises (Exception e)) \<Longrightarrow> fst (scheduled_job src today st) = Returns ()"
  by (simp add: scheduled_job_def split_beta safe_run_task_contained should_execute_task_fields)

lemma run_jobs_fields:
  "task_callback (snd (run_jobs lib src t st js)) = task_callback st
   \<and> running (snd (run_jobs lib src t st js)) = running st
   \<and> shutdown_handler (snd (run_jobs lib src t st js)) = shutdown_handler st
   \<and> slept_seconds (snd (run_jobs lib src t st js)) = slept_seconds st
   \<and> map at_time (jobs (snd (run_jobs lib src t st js))) = map at_time (jobs st)"
proof (induction js arbitrary: st)
  case Nil
  then show ?case by simp
next
  case (Cons i js)
  obtain r st' where sj: "scheduled_job src (tick_today t) st = (r, st')"
    by (cases "scheduled_job src (tick_today t) st")
  have f: "task_callback st' = task_callback st" "jobs st' = jobs st"
    "running st' = running st" "shutdown_handler st' = shutdown_handler st"
    "slept_seconds st' = slept_seconds st"
    using scheduled_job_fields [of src "tick_today t" st] sj by simp_all
  show ?case
  proof (cases r)
    case (Raises e)
    then show ?thesis using sj f by simp
  next
    case (Returns u)
    let ?st = "st'\<lparr>jobs := (jobs st')[i := (jobs st' ! i)
                     \<lparr>next_run := next_at lib (tick_clock t) (at_time (jobs st' ! i))\<rparr>]\<rparr>"
    have m: "map at_time (jobs ?st) = map at_time (jobs st')"
      by (simp add: map_update) (metis list_update_id map_update)
    show ?thesis
      using Cons.IH [of ?st] sj Returns f m by simp
  qed
qed

lemma run_jobs_contained:
  "task_callback st = Some c \<Longrightarrow> \<forall>n. c n = Returns () \<or> (\<exists>e. c n = Raises (Exception e))
    \<Longrightarrow> fst (run_jobs lib src t st js) = Returns ()"
proof (induction js arbitrary: st)
  case Nil
  then show ?case by simp
next
  case (Cons i js)
  obtain r st' where sj: "scheduled_job src (tick_today t) st = (r, st')"
    by (cases "scheduled_job src (tick_today t) st")
  have r: "r = Returns ()"
    using scheduled_job_contained [OF Cons.prems, of src "tick_today t"] sj by simp
  have f: "task_callback st' = Some c"
    using scheduled_job_fields(1) [of src "tick_today t" st] sj Cons.prems by simp
  show ?case
    using sj r Cons.IH [of "st'\<lparr>jobs := (jobs st')[i := (jobs st' ! i)
                     \<lparr>next_run := next_at lib (tick_clock t) (at_time (jobs st' ! i))\<rparr>]\<rparr>"]
      f Cons.prems(2) by simp
qed

lemma run_pending_fields:
  "task_callback (snd (run_pending lib src t st)) = task_callback st"
  "running (snd (run_pending lib src t st)) = running st"
  "shutdown_handler (snd (run_pending lib src t st)) = shutdown_handler st"
  "slept_seconds (snd (run_pending lib src t st)) = slept_seconds st"
  "map at_time (jobs (snd (run_pending lib src t st))) = map at_time (jobs st)"
  using run_jobs_fields [of lib src t st]
  by (simp_all add: run_pending_def)

lemma run_pending_contained:
  "task_callback st = Some c \<Longrightarrow> \<forall>n. c n = Returns () \<or> (\<exists>e. c n = Raises (Exception e))
    \<Longrightarrow> fst (run_pending lib src t st) = Returns ()"
  by (simp add: run_pending_def run_jobs_contained)

lemma sleep_phase_fields:
  "task_callback (sleep_phase t st) = task_callback st"
  "jobs (sleep_phase t st) = jobs st"
  "invocations (sleep_phase t st) = invocations st"
  "calendar_instance (sleep_phase t st) = calendar_instance st"
  "slept_seconds (sleep_phase t st) = slept_seconds st + 30"
  by (simp_all add: sleep_phase_def stop_def Let_def)

lemma sleep_phase_ends_loop:
  "signal_arrives t \<or> stop_called t \<Longrightarrow> \<not> loop_condition (sleep_phase t st)"
  by (auto simp add: sleep_phase_def stop_def Let_def loop_condition_def should_shutdown_def
      signal_handler_def)

lemma run_loop_not_entered:
  "\<not> loop_condition st \<Longrightarrow> run_loop lib src st ts = (Stopped, st)"
  by (cases ts) simp_all

lemma run_loop_step:
  "loop_condition st \<Longrightarrow> fst (run_pending lib src t st) = Returns ()
    \<Longrightarrow> run_loop lib src st (t # ts)
        = run_loop lib src (sleep_phase t (snd (run_pending lib src t st))) ts"
  by (cases "run_pending lib src t st") simp

lemma run_loop_propagates:
  "loop_condition st \<Longrightarrow> fst (run_pending lib src t st) = Raises e
    \<Longrightarrow> fst (run_loop lib src st (t # ts)) = Propagated e"
  by (cases "run_pending lib src t st") simp

lemma run_loop_contained:
  "task_callback st = Some c \<Longrightarrow> \<forall>n. c n = Returns () \<or> (\<exists>e. c n = Raises (Exception e))
    \<Longrightarrow> fst (run_loop lib src st ts) \<noteq> Propagated x
        \<and> map at_time (jobs (snd (run_loop lib src st ts))) = map at_time (jobs st)"
proof (induction ts arbitrary: st)
  case Nil
  then show ?case by simp
next
  case (Cons t ts)
  show ?case
  proof (cases "loop_condition st")
    case False
    then show ?thesis by (simp add: run_loop_not_entered)
  next
    case True
    let ?st = "sleep_phase t (snd (run_pending lib src t st))"
    have ok: "fst (run_pending lib src t st) = Returns ()"
      using Cons.prems by (rule run_pending_contained)
    have cb: "task_callback ?st = Some c"
      using Cons.prems(1) by (simp add: sleep_phase_fields run_pending_fields)
    have js: "map at_time (jobs ?st) = map at_time (jobs st)"
      by (simp add: sleep_phase_fields run_pending_fields)
    show ?thesis
      using Cons.IH [OF cb Cons.prems(2)] js
      by (simp only: run_loop_step [OF True ok]) simp
  qed
qed

subsection \<open>A scheduler with one job, polled on a Tuesday\<close>

lemma global_tuesday:
  "is_trading_day_global silent_source (FromOrdinal 738887) None None
   = (True, Some (init_calendar\<lparr>last_fetch_year := Some 2024, source_calls := 5\<rparr>))"
proof -
  have "is_trading_day silent_source (FromOrdinal 738887) init_calendar None
      = is_trading_day silent_source (FromOrdinal 738887) init_calendar (Some (FromOrdinal 738887))"
    by (simp add: is_trading_day_def)
  then show ?thesis
    by (simp add: is_trading_day_global_def get_trading_calendar_def silent_tuesday)
qed

lemma global_saturday:
  "is_trading_day_global src (FromOrdinal 738891) inst None
   = (False, Some (get_trading_calendar inst))"
  by (simp add: is_trading_day_global_def is_trading_day_def saturday)

lemma accepted_1505: "accepts_time one_day_later ''15:05''"
  by (simp add: one_day_later_def hhmm_def)

lemma rejected_2500: "\<not> accepts_time one_day_later ''25:00''"
  by (simp add: one_day_later_def hhmm_def)

lemma registered_eq:
  "registered c = (init_scheduler ''15:05'')
     \<lparr>task_callback := Some c, jobs := [\<lparr>at_time = ''15:05'', next_run = 86400\<rparr>]\<rparr>"
proof -
  have "schedule_time (init_scheduler ''15:05'') = ''15:05''"
    by (simp add: init_scheduler_def)
  then show ?thesis
    using accepted_1505
    by (simp add: registered_def set_daily_task_def Let_def)
       (simp add: init_scheduler_def one_day_later_def)
qed

lemma registered_fields:
  "calendar_instance (registered c) = None"
  "task_callback (registered c) = Some c"
  "invocations (registered c) = 0"
  "running (registered c) = False"
  "shutdown_handler (registered c) = \<lparr>shutdown_requested = False\<rparr>"
  "slept_seconds (registered c) = 0"
  "jobs (registered c) = [\<lparr>at_time = ''15:05'', next_run = 86400\<rparr>]"
  by (simp_all add: registered_eq init_scheduler_def)

lemma tick_fields:
  "tick_today tuesday_tick = FromOrdinal 738887"
  "tick_clock tuesday_tick = 86400"
  "tick_today signal_tick = FromOrdinal 738887"
  "tick_clock signal_tick = 86400"
  "signal_arrives signal_tick"
  "\<not> signal_arrives tuesday_tick"
  "\<not> stop_called tuesday_tick"
  by (simp_all add: tuesday_tick_def signal_tick_def)

lemma scheduled_job_registered:
  "scheduled_job silent_source (FromOrdinal 738887) ((registered c)\<lparr>running := b\<rparr>)
   = safe_run_task ((registered c)\<lparr>running := b, calendar_instance :=
        Some (init_calendar\<lparr>last_fetch_year := Some 2024, source_calls := 5\<rparr>)\<rparr>)"
  by (simp add: scheduled_job_def should_execute_task_def registered_fields global_tuesday)

lemma run_pending_registered:
  assumes "tick_clock t = 86400"
  shows "run_pending lib src t ((registered c)\<lparr>running := b\<rparr>)
   = run_jobs lib src t ((registered c)\<lparr>running := b\<rparr>) [0]"
  using assms by (simp add: run_pending_def registered_fields)

lemma exiting_poll:
  "fst (run_pending one_day_later silent_source tuesday_tick
          ((registered exiting_task)\<lparr>running := True\<rparr>)) = Raises (BaseOnly ''SystemExit'')"
  by (simp add: run_pending_registered tick_fields scheduled_job_registered safe_run_task_def
      registered_fields exiting_task_def)

lemma unprintable_poll:
  "fst (run_pending one_day_later silent_source tuesday_tick
          ((registered unprintable_task)\<lparr>running := True\<rparr>))
   = Raises (Exception ''RuntimeError'')"
  by (simp add: run_pending_registered tick_fields scheduled_job_registered safe_run_task_def
      registered_fields unprintable_task_def)

lemma failing_poll:
  "invocations (snd (run_pending one_day_later silent_source tuesday_tick
          ((registered failing_task)\<lparr>running := True\<rparr>))) = 1"
  by (simp add: run_pending_registered tick_fields scheduled_job_registered safe_run_task_def
      registered_fields failing_task_def)

lemma completing_poll:
  "fst (run_pending one_day_later silent_source signal_tick
          ((registered completing_task)\<lparr>running := True\<rparr>)) = Returns ()
   \<and> invocations (snd (run_pending one_day_later silent_source signal_tick
          ((registered completing_task)\<lparr>running := True\<rparr>))) = 1"
  by (simp add: run_pending_registered tick_fields scheduled_job_registered safe_run_task_def
      registered_fields completing_task_def)

subsection \<open>Registration\<close>

text \<open>
  Claim C7, as amended. \<^verbatim>\<open>set_daily_task\<close> with \<^verbatim>\<open>run_immediately=True\<close> stores the
  callback. When the library accepts the time string, it registers one job, and when
  \<^verbatim>\<open>is_trading_day()\<close> is true for today the callback is invoked once before
  \<^verbatim>\<open>set_daily_task\<close> returns (the invocation count grows by one, and what that
  invocation does decides how \<^verbatim>\<open>set_daily_task\<close> ends). When \<^verbatim>\<open>is_trading_day()\<close> is
  false for today the callback is not invoked, whatever the time string.
\<close>

theorem set_daily_task_runs_once_on_trading_day:
  "(accepts_time lib (schedule_time st) \<longrightarrow>
      (fst (is_trading_day_global src today (calendar_instance st) None) \<longrightarrow>
         invocations (snd (set_daily_task lib src clock today st callback True))
           = Suc (invocations st)
         \<and> fst (set_daily_task lib src clock today st callback True)
           = (case callback (invocations st) of
                Returns u \<Rightarrow> Returns ()
              | Raises (Exception e) \<Rightarrow> Returns ()
              | Raises (Unprintable e e') \<Rightarrow> Raises e'
              | Raises (BaseOnly e) \<Rightarrow> Raises (BaseOnly e)))
      \<and> (\<not> fst (is_trading_day_global src today (calendar_instance st) None) \<longrightarrow>
         fst (set_daily_task lib src clock today st callback True) = Returns ())
      \<and> jobs (snd (set_daily_task lib src clock today st callback True))
          = jobs st @ [\<lparr>at_time = schedule_time st,
                        next_run = next_at lib clock (schedule_time st)\<rparr>])
   \<and> (\<not> fst (is_trading_day_global src today (calendar_instance st) None) \<longrightarrow>
      invocations (snd (set_daily_task lib src clock today st callback True))
        = invocations st)
   \<and> task_callback (snd (set_daily_task lib src clock today st callback True))
       = Some callback"
  by (simp add: set_daily_task_def Let_def split_beta should_execute_task_def safe_run_task_def
      split: outcome.splits py_exc.splits)

theorem set_daily_task_runs_once_on_trading_day_witness:
  "accepts_time one_day_later (schedule_time (init_scheduler ''15:05''))
   \<and> fst (is_trading_day_global silent_source (FromOrdinal 738887)
          (calendar_instance (init_scheduler ''15:05'')) None)
   \<and> invocations (snd (set_daily_task one_day_later silent_source 0 (FromOrdinal 738887)
          (init_scheduler ''15:05'') completing_task True)) = 1
   \<and> jobs (snd (set_daily_task one_day_later silent_source 0 (FromOrdinal 738887)
          (init_scheduler ''15:05'') completing_task True))
       = [\<lparr>at_time = ''15:05'', next_run = 86400\<rparr>]
   \<and> \<not> fst (is_trading_day_global silent_source (FromOrdinal 738891)
          (calendar_instance (init_scheduler ''15:05'')) None)
   \<and> invocations (snd (set_daily_task one_day_later silent_source 0 (FromOrdinal 738891)
          (init_scheduler ''15:05'') completing_task True)) = 0"
proof -
  have ci: "calendar_instance (init_scheduler ''15:05'') = None"
    "invocations (init_scheduler ''15:05'') = 0"
    "schedule_time (init_scheduler ''15:05'') = ''15:05''"
    "jobs (init_scheduler ''15:05'') = []"
    by (simp_all add: init_scheduler_def)
  have ok: "accepts_time one_day_later (schedule_time (init_scheduler ''15:05''))"
    by (simp add: ci accepted_1505)
  have a: "fst (is_trading_day_global silent_source (FromOrdinal 738887)
          (calendar_instance (init_scheduler ''15:05'')) None)"
    by (simp add: ci global_tuesday)
  have b: "\<not> fst (is_trading_day_global silent_source (FromOrdinal 738891)
          (calendar_instance (init_scheduler ''15:05'')) None)"
    by (simp add: global_saturday)
  note tue = set_daily_task_runs_once_on_trading_day [where src = silent_source
      and today = "FromOrdinal 738887" and st = "init_scheduler ''15:05''"
      and lib = one_day_later and clock = 0 and callback = completing_task]
  note sat = set_daily_task_runs_once_on_trading_day [where src = silent_source
      and today = "FromOrdinal 738891" and st = "init_scheduler ''15:05''"
      and lib = one_day_later and clock = 0 and callback = completing_task]
  have once: "invocations (snd (set_daily_task one_day_later silent_source 0
          (FromOrdinal 738887) (init_scheduler ''15:05'') completing_task True)) = 1"
    using tue [THEN conjunct1, THEN mp, OF ok, THEN conjunct1, THEN mp, OF a]
    by (simp add: ci)
  have job: "jobs (snd (set_daily_task one_day_later silent_source 0 (FromOrdinal 738887)
          (init_scheduler ''15:05'') completing_task True))
       = [\<lparr>at_time = ''15:05'', next_run = 86400\<rparr>]"
    using tue [THEN conjunct1, THEN mp, OF ok]
    by (simp add: ci one_day_later_def)
  have never: "invocations (snd (set_daily_task one_day_later silent_source 0
          (FromOrdinal 738891) (init_scheduler ''15:05'') completing_task True)) = 0"
    using sat [THEN conjunct2, THEN conjunct1, THEN mp, OF b]
    by (simp add: ci)
  show ?thesis using ok a once job b never by blast
qed

text \<open>
  Claim C7 as it was stated covers every scheduler. The constructor stores the time
  string \<^verbatim>\<open>25:00\<close> unchecked; on a trading day \<^verbatim>\<open>set_daily_task\<close> then raises
  \<^verbatim>\<open>ScheduleValueError\<close> where it hands the string to the library, and the task is not
  invoked and no job is registered.
\<close>

theorem set_daily_task_counterexample:
  "fst (is_trading_day_global silent_source (FromOrdinal 738887)
          (calendar_instance (init_scheduler ''25:00'')) None)
   \<and> fst (set_daily_task one_day_later silent_source 0 (FromOrdinal 738887)
          (init_scheduler ''25:00'') completing_task True)
       = Raises (Exception ''ScheduleValueError'')
   \<and> invocations (snd (set_daily_task one_day_later silent_source 0 (FromOrdinal 738887)
          (init_scheduler ''25:00'') completing_task True)) = 0
   \<and> jobs (snd (set_daily_task one_day_later silent_source 0 (FromOrdinal 738887)
          (init_scheduler ''25:00'') completing_task True)) = []"
proof -
  have f: "calendar_instance (init_scheduler ''25:00'') = None"
    "schedule_time (init_scheduler ''25:00'') = ''25:00''"
    "invocations (init_scheduler ''25:00'') = 0"
    "jobs (init_scheduler ''25:00'') = []"
    by (simp_all add: init_scheduler_def)
  show ?thesis
    using rejected_2500 by (simp add: set_daily_task_def f global_tuesday)
qed

subsection \<open>The safe-run wrapper\<close>

text \<open>
  Claim C10. Without a callback \<^verbatim>\<open>_safe_run_task\<close> returns normally and every part of
  the state, the invocation count included, is as before.
\<close>

theorem safe_run_task_without_callback:
  assumes "task_callback st = None"
  shows "safe_run_task st = (Returns (), st)"
  using assms by (rule safe_run_task_no_callback)

theorem safe_run_task_without_callback_witness:
  "task_callback (init_scheduler ''15:05'') = None
   \<and> safe_run_task (init_scheduler ''15:05'') = (Returns (), init_scheduler ''15:05'')"
proof -
  have a: "task_callback (init_scheduler ''15:05'') = None"
    by (simp add: init_scheduler_def)
  show ?thesis using safe_run_task_without_callback [OF a] a by simp
qed

text \<open>
  Claim C8, as amended. For a callback whose invocations return or raise an instance of
  \<^verbatim>\<open>Exception\<close> that the handler can write into its log message (its \<^verbatim>\<open>__str__\<close>
  returns a string), and so for one that raises such an exception each time it is
  invoked: \<^verbatim>\<open>_safe_run_task\<close> returns, \<^verbatim>\<open>run_pending\<close> returns and keeps every job with its
  time of day, the loop goes on to the sleep and to its next condition check, and no
  exception leaves \<^verbatim>\<open>run()\<close> however long it runs.
\<close>

theorem task_exception_is_contained:
  assumes "task_callback st = Some callback"
    and "\<forall>n. callback n = Returns () \<or> (\<exists>e. callback n = Raises (Exception e))"
  shows "fst (safe_run_task st) = Returns ()
       \<and> fst (run_pending lib src t st) = Returns ()
       \<and> map at_time (jobs (snd (run_pending lib src t st))) = map at_time (jobs st)
       \<and> (loop_condition st \<longrightarrow>
            run_loop lib src st (t # ts)
              = run_loop lib src (sleep_phase t (snd (run_pending lib src t st))) ts)
       \<and> (\<forall>e. fst (run_loop lib src st ts) \<noteq> Propagated e)
       \<and> map at_time (jobs (snd (run_loop lib src st ts))) = map at_time (jobs st)"
proof -
  have p: "fst (run_pending lib src t st) = Returns ()"
    using assms by (rule run_pending_contained)
  show ?thesis
    using safe_run_task_contained [OF assms] p run_pending_fields(5) [of lib src t st]
      run_loop_step [OF _ p, of ts] run_loop_contained [OF assms, of lib src ts]
    by simp
qed

theorem task_exception_is_contained_witness:
  "task_callback ((registered failing_task)\<lparr>running := True\<rparr>) = Some failing_task
   \<and> failing_task 0 = Raises (Exception ''ValueError'')
   \<and> fst (safe_run_task ((registered failing_task)\<lparr>running := True\<rparr>)) = Returns ()
   \<and> fst (run_pending one_day_later silent_source tuesday_tick
            ((registered failing_task)\<lparr>running := True\<rparr>)) = Returns ()
   \<and> invocations (snd (run_pending one_day_later silent_source tuesday_tick
            ((registered failing_task)\<lparr>running := True\<rparr>))) = 1
   \<and> map at_time (jobs (snd (run_pending one_day_later silent_source tuesday_tick
            ((registered failing_task)\<lparr>running := True\<rparr>)))) = [''15:05'']
   \<and> fst (run one_day_later silent_source (registered failing_task) [tuesday_tick])
       = StillRunning"
proof -
  let ?st = "(registered failing_task)\<lparr>running := True\<rparr>"
  have a: "task_callback ?st = Some failing_task" by (simp add: registered_fields)
  have b: "\<forall>n. failing_task n = Returns ()
      \<or> (\<exists>e. failing_task n = Raises (Exception e))"
    by (simp add: failing_task_def)
  note t = task_exception_is_contained [OF a b, of one_day_later silent_source tuesday_tick "[]"]
  have lc: "loop_condition ?st"
    by (simp add: loop_condition_def should_shutdown_def registered_fields)
  have s1: "fst (safe_run_task ?st) = Returns ()" using t by simp
  have s2: "fst (run_pending one_day_later silent_source tuesday_tick ?st) = Returns ()"
    using t by simp
  have s3: "map at_time (jobs (snd (run_pending one_day_later silent_source tuesday_tick ?st)))
      = [''15:05'']"
    using t by (simp add: registered_fields)
  have step: "run_loop one_day_later silent_source ?st [tuesday_tick]
      = run_loop one_day_later silent_source
          (sleep_phase tuesday_tick (snd (run_pending one_day_later silent_source tuesday_tick ?st))) []"
    using t lc by blast
  have "loop_condition
      (sleep_phase tuesday_tick (snd (run_pending one_day_later silent_source tuesday_tick ?st)))"
    by (simp add: sleep_phase_def Let_def tick_fields loop_condition_def run_pending_fields
        registered_fields should_shutdown_def)
  then have "fst (run_loop one_day_later silent_source ?st [tuesday_tick]) = StillRunning"
    by (simp only: step) simp
  then have s4: "fst (run one_day_later silent_source (registered failing_task) [tuesday_tick])
       = StillRunning"
    by (simp add: run_def del: run_loop.simps)
  show ?thesis
    using a s1 s2 s3 s4 failing_poll by (simp add: failing_task_def)
qed

text \<open>
  Claim C8 as it was stated covers every raised object. A callback that raises
  \<^verbatim>\<open>SystemExit\<close> (it calls \<^verbatim>\<open>sys.exit()\<close>) is not held by \<^verbatim>\<open>except Exception\<close>: the
  exception leaves \<^verbatim>\<open>_safe_run_task\<close>, and it leaves \<^verbatim>\<open>run()\<close> at the first poll at
  which the job is due on a trading day. A callback that raises an \<^verbatim>\<open>Exception\<close> whose
  \<^verbatim>\<open>__str__\<close> raises \<^verbatim>\<open>RuntimeError\<close> is caught, and the \<^verbatim>\<open>RuntimeError\<close> then leaves
  the handler and \<^verbatim>\<open>run()\<close> the same way.
\<close>

theorem task_exception_counterexample:
  "task_callback (registered exiting_task) = Some exiting_task
   \<and> fst (safe_run_task (registered exiting_task)) = Raises (BaseOnly ''SystemExit'')
   \<and> fst (run one_day_later silent_source (registered exiting_task) [tuesday_tick])
       = Propagated (BaseOnly ''SystemExit'')
   \<and> task_callback (registered unprintable_task) = Some unprintable_task
   \<and> fst (safe_run_task (registered unprintable_task)) = Raises (Exception ''RuntimeError'')
   \<and> fst (run one_day_later silent_source (registered unprintable_task) [tuesday_tick])
       = Propagated (Exception ''RuntimeError'')"
proof -
  have "loop_condition ((registered exiting_task)\<lparr>running := True\<rparr>)"
    by (simp add: loop_condition_def should_shutdown_def registered_fields)
  then have e: "fst (run one_day_later silent_source (registered exiting_task) [tuesday_tick])
       = Propagated (BaseOnly ''SystemExit'')"
    using exiting_poll by (simp add: run_def run_loop_propagates del: run_loop.simps)
  have "loop_condition ((registered unprintable_task)\<lparr>running := True\<rparr>)"
    by (simp add: loop_condition_def should_shutdown_def registered_fields)
  then have u: "fst (run one_day_later silent_source (registered unprintable_task)
        [tuesday_tick]) = Propagated (Exception ''RuntimeError'')"
    using unprintable_poll by (simp add: run_def run_loop_propagates del: run_loop.simps)
  show ?thesis
    using e u
    by (simp add: registered_fields safe_run_task_def exiting_task_def unprintable_task_def)
qed

subsection \<open>Leaving the loop\<close>

text \<open>
  Claim C9. With the shutdown flag set, or with \<^verbatim>\<open>_running\<close> false, the loop condition
  fails and the loop returns at once, the state untouched. When a signal arrives or
  \<^verbatim>\<open>stop()\<close> is called during an iteration, the loop returns at the condition check
  that follows the sleep of that iteration, whatever iterations would have come after:
  the final state is the one the sleep left, the callback has not been invoked since
  the poll before that sleep, and that sleep of thirty seconds is the only one after
  the poll.
\<close>

theorem run_exits_on_shutdown_or_stop:
  "(should_shutdown (shutdown_handler st) \<or> \<not> running st \<longrightarrow>
      run_loop lib src st ts = (Stopped, st))
   \<and> (loop_condition st \<and> (signal_arrives t \<or> stop_called t)
        \<and> fst (run_pending lib src t st) = Returns () \<longrightarrow>
      run_loop lib src st (t # ts)
        = (Stopped, sleep_phase t (snd (run_pending lib src t st)))
      \<and> invocations (sleep_phase t (snd (run_pending lib src t st)))
        = invocations (snd (run_pending lib src t st))
      \<and> slept_seconds (sleep_phase t (snd (run_pending lib src t st)))
        = slept_seconds (snd (run_pending lib src t st)) + 30)"
proof (intro conjI impI)
  assume "should_shutdown (shutdown_handler st) \<or> \<not> running st"
  then have "\<not> loop_condition st" by (auto simp add: loop_condition_def)
  then show "run_loop lib src st ts = (Stopped, st)" by (rule run_loop_not_entered)
next
  assume a: "loop_condition st \<and> (signal_arrives t \<or> stop_called t)
        \<and> fst (run_pending lib src t st) = Returns ()"
  then have "\<not> loop_condition (sleep_phase t (snd (run_pending lib src t st)))"
    by (simp add: sleep_phase_ends_loop)
  then have "run_loop lib src (sleep_phase t (snd (run_pending lib src t st))) ts
        = (Stopped, sleep_phase t (snd (run_pending lib src t st)))"
    by (rule run_loop_not_entered)
  then show "run_loop lib src st (t # ts)
        = (Stopped, sleep_phase t (snd (run_pending lib src t st)))"
    using a by (simp add: run_loop_step del: run_loop.simps)
next
  show "invocations (sleep_phase t (snd (run_pending lib src t st)))
        = invocations (snd (run_pending lib src t st))"
    by (simp add: sleep_phase_fields)
next
  show "slept_seconds (sleep_phase t (snd (run_pending lib src t st)))
        = slept_seconds (snd (run_pending lib src t st)) + 30"
    by (simp add: sleep_phase_fields)
qed

theorem run_exits_on_shutdown_or_stop_witness:
  "loop_condition ((registered completing_task)\<lparr>running := True\<rparr>)
   \<and> signal_arrives signal_tick
   \<and> fst (run_pending one_day_later silent_source signal_tick
            ((registered completing_task)\<lparr>running := True\<rparr>)) = Returns ()
   \<and> fst (run one_day_later silent_source (registered completing_task)
            [signal_tick, tuesday_tick]) = Stopped
   \<and> invocations (snd (run one_day_later silent_source (registered completing_task)
            [signal_tick, tuesday_tick])) = 1
   \<and> slept_seconds (snd (run one_day_later silent_source (registered completing_task)
            [signal_tick, tuesday_tick])) = 30
   \<and> run_loop one_day_later silent_source (stop ((registered completing_task)\<lparr>running := True\<rparr>))
        [tuesday_tick] = (Stopped, stop ((registered completing_task)\<lparr>running := True\<rparr>))"
proof -
  let ?st = "(registered completing_task)\<lparr>running := True\<rparr>"
  have lc: "loop_condition ?st"
    by (simp add: loop_condition_def should_shutdown_def registered_fields)
  have sg: "signal_arrives signal_tick" by (simp add: tick_fields)
  have rp: "fst (run_pending one_day_later silent_source signal_tick ?st) = Returns ()"
    using completing_poll by simp
  have r: "run_loop one_day_later silent_source ?st (signal_tick # [tuesday_tick])
      = (Stopped, sleep_phase signal_tick (snd (run_pending one_day_later silent_source signal_tick ?st)))
    \<and> invocations (sleep_phase signal_tick (snd (run_pending one_day_later silent_source signal_tick ?st)))
      = invocations (snd (run_pending one_day_later silent_source signal_tick ?st))
    \<and> slept_seconds (sleep_phase signal_tick (snd (run_pending one_day_later silent_source signal_tick ?st)))
      = slept_seconds (snd (run_pending one_day_later silent_source signal_tick ?st)) + 30"
    using run_exits_on_shutdown_or_stop [where st = ?st and lib = one_day_later
        and src = silent_source and t = signal_tick and ts = "[tuesday_tick]"] lc sg rp
    by blast
  have st: "run_loop one_day_later silent_source (stop ?st) [tuesday_tick] = (Stopped, stop ?st)"
    using run_exits_on_shutdown_or_stop [where st = "stop ?st" and lib = one_day_later
        and src = silent_source and ts = "[tuesday_tick]"]
    by (simp add: stop_def del: run_loop.simps)
  have f: "fst (run one_day_later silent_source (registered completing_task)
            [signal_tick, tuesday_tick]) = Stopped"
    using r by (simp add: run_def del: run_loop.simps)
  have i: "invocations (snd (run one_day_later silent_source (registered completing_task)
            [signal_tick, tuesday_tick])) = 1"
    using r completing_poll by (simp add: run_def del: run_loop.simps)
  have z: "slept_seconds (snd (run one_day_later silent_source (registered completing_task)
            [signal_tick, tuesday_tick])) = 30"
    using r by (simp add: run_def run_pending_fields registered_fields del: run_loop.simps)
  show ?thesis using lc sg rp f i z st by blast
qed

end
